theory Spec2Isabelle
  imports Main
begin

section \<open>Command text\<close>

text \<open>
  The hook \<^verbatim>\<open>bash_safety_hook.py\<close> reads one JSON request, and for a shell command
  matches the command text against a fixed list of regular expressions. This theory embeds
  the hook: the character classes and the matching of Python's \<^verbatim>\<open>re\<close> module that
  the patterns use, the pattern lists, \<^verbatim>\<open>validate_command\<close>,
  \<^verbatim>\<open>log_blocked_command\<close> and \<^verbatim>\<open>main\<close>.

  A Python string is a sequence of code points. Here a string is a \<^typ>\<open>char list\<close>, and a
  \<^typ>\<open>char\<close> stands for the code point of the same number, so the model covers command
  text whose code points lie below 256. On that range the classes below are the ones Python
  uses for \<^verbatim>\<open>str.strip()\<close>, \<^verbatim>\<open>\s\<close>, \<^verbatim>\<open>\w\<close> and for comparing
  letters under \<^verbatim>\<open>re.IGNORECASE\<close>.
\<close>

abbreviation (input) bs :: char where "bs \<equiv> CHR 0x5C"
abbreviation (input) nl :: char where "nl \<equiv> CHR 0x0A"

definition code :: "char \<Rightarrow> nat" where
  "code c = of_char c"

text \<open>Whitespace: what \<^verbatim>\<open>str.isspace\<close> accepts, which is also what \<^verbatim>\<open>\s\<close> matches.\<close>

definition is_space :: "char \<Rightarrow> bool" where
  "is_space c = (let n = code c in
     (9 \<le> n \<and> n \<le> 13) \<or> (28 \<le> n \<and> n \<le> 32) \<or> n = 133 \<or> n = 160)"

text \<open>Word characters: alphanumerics and the underscore, what \<^verbatim>\<open>\w\<close> matches.\<close>

definition is_word :: "char \<Rightarrow> bool" where
  "is_word c = (let n = code c in
     (48 \<le> n \<and> n \<le> 57) \<or> (65 \<le> n \<and> n \<le> 90) \<or> n = 95 \<or> (97 \<le> n \<and> n \<le> 122) \<or>
     n = 170 \<or> n = 178 \<or> n = 179 \<or> n = 181 \<or> n = 185 \<or> n = 186 \<or> (188 \<le> n \<and> n \<le> 190) \<or>
     (192 \<le> n \<and> n \<le> 214) \<or> (216 \<le> n \<and> n \<le> 246) \<or> 248 \<le> n)"

definition is_ascii :: "char \<Rightarrow> bool" where
  "is_ascii c = (code c < 128)"

text \<open>Letters that have a lower-case partner, and lower-case letters whose upper-case partner
  lies below 256.\<close>

definition is_upper :: "char \<Rightarrow> bool" where
  "is_upper c = (let n = code c in
     (65 \<le> n \<and> n \<le> 90) \<or> (192 \<le> n \<and> n \<le> 214) \<or> (216 \<le> n \<and> n \<le> 222))"

definition is_lower :: "char \<Rightarrow> bool" where
  "is_lower c = (let n = code c in
     (97 \<le> n \<and> n \<le> 122) \<or> (224 \<le> n \<and> n \<le> 246) \<or> (248 \<le> n \<and> n \<le> 254))"

definition lower :: "char \<Rightarrow> char" where
  "lower c = (if is_upper c then char_of (code c + 32) else c)"

definition upper :: "char \<Rightarrow> char" where
  "upper c = (if is_lower c then char_of (code c - 32) else c)"

text \<open>\<^verbatim>\<open>command.strip()\<close>: leading and trailing whitespace removed.\<close>

definition strip :: "string \<Rightarrow> string" where
  "strip s = rev (dropWhile is_space (rev (dropWhile is_space s)))"

section \<open>Regular expressions\<close>

text \<open>
  The syntax tree of a compiled pattern, for the notation the pattern lists use: literals,
  \<^verbatim>\<open>.\<close>, character sets, \<^verbatim>\<open>\s\<close>, \<^verbatim>\<open>\w\<close>, the anchors
  \<^verbatim>\<open>^\<close>, \<^verbatim>\<open>$\<close>, \<^verbatim>\<open>\b\<close>, sequence, alternation, the repeats
  \<^verbatim>\<open>*\<close>, \<^verbatim>\<open>+\<close>, \<^verbatim>\<open>?\<close>, numbered groups and references to them.
\<close>

datatype citem = CChar char | CRange char char

datatype regex =
    Lit char
  | Dot
  | Cls "citem list"
  | Space
  | Word
  | Bol
  | Eol
  | Wordb
  | Cat "regex list"
  | Alts "regex list"
  | Star regex
  | Plus regex
  | Opt regex
  | Group nat regex
  | Backref nat

subsection \<open>Matching\<close>

text \<open>
  The matcher works as \<^verbatim>\<open>re.search(pattern, text, re.IGNORECASE | re.MULTILINE)\<close> does.
  A state is a position in the text: the character before it, the text from it on, and the
  text each group captured on the way. \<open>m r st\<close> lists every state in which a match of
  \<open>r\<close> that begins in \<open>st\<close> can end, in the order in which the backtracking matcher
  tries them; the search succeeds when some start position has a match.
\<close>

record mstate =
  prev :: "char option"
  rest :: string
  caps :: "nat \<rightharpoonup> string"

text \<open>Membership of a character set under \<^verbatim>\<open>IGNORECASE\<close>: the character matches an
  item when one of its case variants does.\<close>

fun citem_has :: "citem \<Rightarrow> char \<Rightarrow> bool" where
  "citem_has (CChar x) c = (lower x = lower c)"
| "citem_has (CRange lo hi) c =
     ((code lo \<le> code (lower c) \<and> code (lower c) \<le> code hi) \<or>
      (code lo \<le> code (upper (lower c)) \<and> code (upper (lower c)) \<le> code hi))"

declare citem_has.simps(2) [simp del]

definition one_char :: "(char \<Rightarrow> bool) \<Rightarrow> mstate \<Rightarrow> mstate list" where
  "one_char P st = (case rest st of
       [] \<Rightarrow> []
     | x # xs \<Rightarrow> if P x then [st\<lparr>prev := Some x, rest := xs\<rparr>] else [])"

definition word_at :: "char option \<Rightarrow> bool" where
  "word_at p = (case p of None \<Rightarrow> False | Some c \<Rightarrow> is_word c)"

definition peek :: "string \<Rightarrow> char option" where
  "peek s = (case s of [] \<Rightarrow> None | x # _ \<Rightarrow> Some x)"

fun seq_m :: "(mstate \<Rightarrow> mstate list) list \<Rightarrow> mstate \<Rightarrow> mstate list" where
  "seq_m [] st = [st]"
| "seq_m (f # fs) st = concat (map (seq_m fs) (f st))"

definition alt_m :: "(mstate \<Rightarrow> mstate list) list \<Rightarrow> mstate \<Rightarrow> mstate list" where
  "alt_m fs st = concat (map (\<lambda>f. f st) fs)"

text \<open>A repeat: any number of rounds of the body, the longest first. A round that consumes
  nothing is not repeated, so the number of rounds is bounded by the length of the text.\<close>

fun star_from :: "(mstate \<Rightarrow> mstate list) \<Rightarrow> nat \<Rightarrow> mstate \<Rightarrow> mstate list" where
  "star_from f 0 st = [st]"
| "star_from f (Suc n) st =
     concat (map (star_from f n) (filter (\<lambda>st'. length (rest st') < length (rest st)) (f st))) @ [st]"

definition star_m :: "(mstate \<Rightarrow> mstate list) \<Rightarrow> mstate \<Rightarrow> mstate list" where
  "star_m f st = star_from f (length (rest st)) st"

definition capture :: "nat \<Rightarrow> mstate \<Rightarrow> mstate \<Rightarrow> mstate" where
  "capture k st st' =
     st'\<lparr>caps := (caps st')(k \<mapsto> take (length (rest st) - length (rest st')) (rest st))\<rparr>"

definition backref :: "nat \<Rightarrow> mstate \<Rightarrow> mstate list" where
  "backref k st = (case caps st k of
       None \<Rightarrow> []
     | Some g \<Rightarrow>
         if length g \<le> length (rest st) \<and> map lower (take (length g) (rest st)) = map lower g
         then [st\<lparr>prev := (if g = [] then prev st else Some (last (take (length g) (rest st)))),
                  rest := drop (length g) (rest st)\<rparr>]
         else [])"

primrec m :: "regex \<Rightarrow> mstate \<Rightarrow> mstate list" where
  "m (Lit c) st = one_char (\<lambda>x. lower x = lower c) st"
| "m Dot st = one_char (\<lambda>x. x \<noteq> nl) st"
| "m (Cls items) st = one_char (\<lambda>x. \<exists>i \<in> set items. citem_has i x) st"
| "m Space st = one_char is_space st"
| "m Word st = one_char is_word st"
| "m Bol st = (if prev st = None \<or> prev st = Some nl then [st] else [])"
| "m Eol st = (if rest st = [] \<or> peek (rest st) = Some nl then [st] else [])"
| "m Wordb st = (if word_at (prev st) \<noteq> word_at (peek (rest st)) then [st] else [])"
| "m (Cat rs) st = seq_m (map m rs) st"
| "m (Alts rs) st = alt_m (map m rs) st"
| "m (Star r) st = star_m (m r) st"
| "m (Plus r) st = concat (map (star_m (m r)) (m r st))"
| "m (Opt r) st = m r st @ [st]"
| "m (Group k r) st = map (capture k st) (m r st)"
| "m (Backref k) st = backref k st"

fun search_from :: "regex \<Rightarrow> char option \<Rightarrow> string \<Rightarrow> bool" where
  "search_from r p [] = (m r \<lparr>prev = p, rest = [], caps = Map.empty\<rparr> \<noteq> [])"
| "search_from r p (x # xs) =
     (m r \<lparr>prev = p, rest = x # xs, caps = Map.empty\<rparr> \<noteq> [] \<or> search_from r (Some x) xs)"

subsection \<open>Compiling pattern text\<close>

text \<open>
  \<open>re_compile\<close> reads pattern text as \<^verbatim>\<open>re\<close> does, one character at a time, keeping a
  stack of the groups that are open. It answers \<open>None\<close> where \<^verbatim>\<open>re\<close> raises
  \<^verbatim>\<open>re.error\<close>: an unbalanced parenthesis, a repeat with nothing before it, a repeat of
  a repeat, an unterminated or reversed character set, a bad escape, a reference to a group
  that is not closed. The notation covered is the one the pattern lists use; pattern text
  that uses anything else (counted repeats in braces, \<^verbatim>\<open>(?...)\<close> groups, lazy repeats,
  escapes inside a set, a negated set, other letter escapes) is outside the model, and
  \<open>re_compile\<close> answers \<open>None\<close> for it as well.
\<close>

datatype pmode =
    Normal
  | Escaped
  | ClsStart
  | ClsReady "citem list"
  | ClsHave "citem list" char
  | ClsDash "citem list" char

record pstate =
  pmode :: pmode
  stack :: "(nat \<times> regex list \<times> regex list) list"
  gnum :: nat
  alts :: "regex list"
  items :: "regex list"
  ngroups :: nat
  closed :: "nat list"

fun mk_cat :: "regex list \<Rightarrow> regex" where
  "mk_cat [r] = r"
| "mk_cat rs = Cat rs"

fun mk_alts :: "regex list \<Rightarrow> regex" where
  "mk_alts [r] = r"
| "mk_alts rs = Alts rs"

definition finish :: "regex list \<Rightarrow> regex list \<Rightarrow> regex" where
  "finish as is = mk_alts (rev (mk_cat (rev is) # as))"

fun quantify :: "char \<Rightarrow> regex \<Rightarrow> regex option" where
  "quantify q (Star r) = None"
| "quantify q (Plus r) = None"
| "quantify q (Opt r) = None"
| "quantify q Bol = None"
| "quantify q Eol = None"
| "quantify q Wordb = None"
| "quantify q r =
     Some (if q = CHR ''*'' then Star r else if q = CHR ''+'' then Plus r else Opt r)"

definition digit_of :: "char \<Rightarrow> nat option" where
  "digit_of c = map_of [(CHR ''0'', 0), (CHR ''1'', 1), (CHR ''2'', 2), (CHR ''3'', 3), (CHR ''4'', 4),
     (CHR ''5'', 5), (CHR ''6'', 6), (CHR ''7'', 7), (CHR ''8'', 8), (CHR ''9'', 9)] c"

definition add_item :: "regex \<Rightarrow> pstate \<Rightarrow> pstate" where
  "add_item r st = st\<lparr>pmode := Normal, items := r # items st\<rparr>"

definition step_escaped :: "pstate \<Rightarrow> char \<Rightarrow> string \<Rightarrow> pstate option" where
  "step_escaped st c cs =
    (if c = CHR ''s'' then Some (add_item Space st)
     else if c = CHR ''w'' then Some (add_item Word st)
     else if c = CHR ''b'' then Some (add_item Wordb st)
     else if c = CHR ''n'' then Some (add_item (Lit nl) st)
     else case digit_of c of
       Some k \<Rightarrow>
         (if k = 0 \<or> (case peek cs of None \<Rightarrow> False | Some d \<Rightarrow> digit_of d \<noteq> None) then None
          else if k \<in> set (closed st) then Some (add_item (Backref k) st)
          else None)
     | None \<Rightarrow>
         if is_ascii c \<and> is_word c \<and> c \<noteq> CHR ''_'' then None
         else Some (add_item (Lit c) st))"

definition step_normal :: "pstate \<Rightarrow> char \<Rightarrow> string \<Rightarrow> pstate option" where
  "step_normal st c cs =
    (if c = bs then Some (st\<lparr>pmode := Escaped\<rparr>)
     else if c = CHR ''['' then Some (st\<lparr>pmode := ClsStart\<rparr>)
     else if c = CHR ''('' then
       (if peek cs = Some (CHR ''?'') then None
        else Some (st\<lparr>stack := (gnum st, alts st, items st) # stack st,
                      gnum := Suc (ngroups st), alts := [], items := [],
                      ngroups := Suc (ngroups st)\<rparr>))
     else if c = CHR '')'' then
       (case stack st of
          [] \<Rightarrow> None
        | (g, as, is) # stk \<Rightarrow>
            Some (st\<lparr>stack := stk, gnum := g, alts := as,
                     items := Group (gnum st) (finish (alts st) (items st)) # is,
                     closed := gnum st # closed st\<rparr>))
     else if c = CHR ''|'' then
       Some (st\<lparr>alts := mk_cat (rev (items st)) # alts st, items := []\<rparr>)
     else if c = CHR ''*'' \<or> c = CHR ''+'' \<or> c = CHR ''?'' then
       (case items st of
          [] \<Rightarrow> None
        | r # rs \<Rightarrow> (case quantify c r of None \<Rightarrow> None | Some r' \<Rightarrow> Some (st\<lparr>items := r' # rs\<rparr>)))
     else if c = CHR ''{'' then None
     else if c = CHR ''.'' then Some (add_item Dot st)
     else if c = CHR ''^'' then Some (add_item Bol st)
     else if c = CHR ''$'' then Some (add_item Eol st)
     else Some (add_item (Lit c) st))"

definition step_class :: "pstate \<Rightarrow> char \<Rightarrow> pstate option" where
  "step_class st c =
    (if c = bs then None
     else case pmode st of
       ClsStart \<Rightarrow>
         if c = CHR ''^'' then None else Some (st\<lparr>pmode := ClsHave [] c\<rparr>)
     | ClsReady cis \<Rightarrow>
         if c = CHR '']'' then Some (add_item (Cls cis) st)
         else Some (st\<lparr>pmode := ClsHave cis c\<rparr>)
     | ClsHave cis t \<Rightarrow>
         if c = CHR '']'' then Some (add_item (Cls (cis @ [CChar t])) st)
         else if c = CHR ''-'' then Some (st\<lparr>pmode := ClsDash cis t\<rparr>)
         else Some (st\<lparr>pmode := ClsHave (cis @ [CChar t]) c\<rparr>)
     | ClsDash cis t \<Rightarrow>
         if c = CHR '']'' then Some (add_item (Cls (cis @ [CChar t, CChar (CHR ''-'')])) st)
         else if code c < code t then None
         else Some (st\<lparr>pmode := ClsReady (cis @ [CRange t c])\<rparr>)
     | _ \<Rightarrow> None)"

definition step :: "pstate \<Rightarrow> char \<Rightarrow> string \<Rightarrow> pstate option" where
  "step st c cs =
    (case pmode st of
       Normal \<Rightarrow> step_normal st c cs
     | Escaped \<Rightarrow> step_escaped st c cs
     | _ \<Rightarrow> step_class st c)"

fun parse :: "pstate \<Rightarrow> string \<Rightarrow> regex option" where
  "parse st [] =
     (if pmode st = Normal \<and> stack st = [] then Some (finish (alts st) (items st)) else None)"
| "parse st (c # cs) = (case step st c cs of None \<Rightarrow> None | Some st' \<Rightarrow> parse st' cs)"

definition re_compile :: "string \<Rightarrow> regex option" where
  "re_compile p =
     parse \<lparr>pmode = Normal, stack = [], gnum = 0, alts = [], items = [], ngroups = 0, closed = []\<rparr> p"

section \<open>The pattern lists\<close>

text \<open>
  Each pattern is the text of the raw string in the source, given before its definition; a
  backslash is written \<open>bs\<close>. A rule is a pair of pattern text and message.
\<close>

type_synonym rule = "string \<times> string"

text \<open>\<^verbatim>\<open>rm\s+(-[a-zA-Z]*[rf][a-zA-Z]*\s+)*(/\s*$|/\s*[;&|]|/\s*\n)\<close>\<close>

definition pat_rm_root :: string where
  "pat_rm_root =
     ''rm'' @ bs # ''s+(-[a-zA-Z]*[rf][a-zA-Z]*'' @ bs # ''s+)*(/'' @ bs # ''s*$|/'' @
     bs # ''s*[;&|]|/'' @ bs # ''s*'' @ bs # ''n)''"

text \<open>\<^verbatim>\<open>rm\s+.*-[a-zA-Z]*r[a-zA-Z]*.*\s+/\*\<close>\<close>

definition pat_rm_root_contents :: string where
  "pat_rm_root_contents =
     ''rm'' @ bs # ''s+.*-[a-zA-Z]*r[a-zA-Z]*.*'' @ bs # ''s+/'' @ bs # ''*''"

text \<open>\<^verbatim>\<open>rm\s+(-[a-zA-Z]+\s+)*-[a-zA-Z]*r[a-zA-Z]*(\s+-[a-zA-Z]+)*\s+(/|/bin|/boot|/dev|/etc|/home|/lib|/opt|/root|/sbin|/sys|/usr|/var)(\s|$|[;&|])\<close>\<close>

definition pat_rm_system_dir :: string where
  "pat_rm_system_dir =
     ''rm'' @ bs # ''s+(-[a-zA-Z]+'' @ bs # ''s+)*-[a-zA-Z]*r[a-zA-Z]*('' @
     bs # ''s+-[a-zA-Z]+)*'' @
     bs # ''s+(/|/bin|/boot|/dev|/etc|/home|/lib|/opt|/root|/sbin|/sys|/usr|/var)('' @
     bs # ''s|$|[;&|])''"

text \<open>\<^verbatim>\<open>rm\s+.*--no-preserve-root\<close>\<close>

definition pat_no_preserve_root :: string where
  "pat_no_preserve_root =
     ''rm'' @ bs # ''s+.*--no-preserve-root''"

text \<open>\<^verbatim>\<open>mkfs\.\<close>\<close>

definition pat_mkfs :: string where
  "pat_mkfs =
     ''mkfs'' @ bs # ''.''"

text \<open>\<^verbatim>\<open>dd\s+.*of=/dev/(sd[a-z]|nvme|hd[a-z]|vd[a-z])\<close>\<close>

definition pat_dd_disk :: string where
  "pat_dd_disk =
     ''dd'' @ bs # ''s+.*of=/dev/(sd[a-z]|nvme|hd[a-z]|vd[a-z])''"

text \<open>\<^verbatim>\<open>\bshred\s+.*(/dev/(sd[a-z]|nvme|hd[a-z]|vd[a-z])|/dev/[a-z]+[0-9]*)\<close>\<close>

definition pat_shred :: string where
  "pat_shred =
     bs # ''bshred'' @
     bs # ''s+.*(/dev/(sd[a-z]|nvme|hd[a-z]|vd[a-z])|/dev/[a-z]+[0-9]*)''"

text \<open>\<^verbatim>\<open>\bwipefs\s+\<close>\<close>

definition pat_wipefs :: string where
  "pat_wipefs =
     bs # ''bwipefs'' @ bs # ''s+''"

text \<open>\<^verbatim>\<open>:\(\)\s*\{\s*:\s*\|\s*:\s*&\s*\}\s*;?\s*:\<close>\<close>

definition pat_fork_bomb :: string where
  "pat_fork_bomb =
     '':'' @ bs # ''('' @ bs # '')'' @ bs # ''s*'' @ bs # ''{'' @ bs # ''s*:'' @
     bs # ''s*'' @ bs # ''|'' @ bs # ''s*:'' @ bs # ''s*&'' @ bs # ''s*'' @ bs # ''}'' @
     bs # ''s*;?'' @ bs # ''s*:''"

text \<open>\<^verbatim>\<open>\b(\w)\(\)\s*\{\s*\1\s*\|\s*\1\s*&\s*\}\s*;?\s*\1\b\<close>\<close>

definition pat_fork_bomb_generic :: string where
  "pat_fork_bomb_generic =
     bs # ''b('' @ bs # ''w)'' @ bs # ''('' @ bs # '')'' @ bs # ''s*'' @ bs # ''{'' @
     bs # ''s*'' @ bs # ''1'' @ bs # ''s*'' @ bs # ''|'' @ bs # ''s*'' @ bs # ''1'' @
     bs # ''s*&'' @ bs # ''s*'' @ bs # ''}'' @ bs # ''s*;?'' @ bs # ''s*'' @
     bs # ''1'' @ bs # ''b''"

text \<open>\<^verbatim>\<open>while\s*(true|1|:)\s*;\s*do\s*(cat|yes|dd)\<close>\<close>

definition pat_while_loop :: string where
  "pat_while_loop =
     ''while'' @ bs # ''s*(true|1|:)'' @ bs # ''s*;'' @ bs # ''s*do'' @
     bs # ''s*(cat|yes|dd)''"

text \<open>\<^verbatim>\<open>(nc|ncat|netcat)\s+.*-e\s*/bin/(ba)?sh\<close>\<close>

definition pat_reverse_shell :: string where
  "pat_reverse_shell =
     ''(nc|ncat|netcat)'' @ bs # ''s+.*-e'' @ bs # ''s*/bin/(ba)?sh''"

text \<open>\<^verbatim>\<open>bash\s+-i\s+>&\s*/dev/tcp/\<close>\<close>

definition pat_bash_reverse_shell :: string where
  "pat_bash_reverse_shell =
     ''bash'' @ bs # ''s+-i'' @ bs # ''s+>&'' @ bs # ''s*/dev/tcp/''"

text \<open>\<^verbatim>\<open>(curl|wget)\s+.*\|\s*(ba)?sh\<close>\<close>

definition pat_pipe_shell :: string where
  "pat_pipe_shell =
     ''(curl|wget)'' @ bs # ''s+.*'' @ bs # ''|'' @ bs # ''s*(ba)?sh''"

text \<open>\<^verbatim>\<open>(curl|wget)\s+.*\|\s*python[23]?\<close>\<close>

definition pat_pipe_python :: string where
  "pat_pipe_python =
     ''(curl|wget)'' @ bs # ''s+.*'' @ bs # ''|'' @ bs # ''s*python[23]?''"

text \<open>\<^verbatim>\<open>(curl|wget)\s+.*\|\s*sudo\<close>\<close>

definition pat_pipe_sudo :: string where
  "pat_pipe_sudo =
     ''(curl|wget)'' @ bs # ''s+.*'' @ bs # ''|'' @ bs # ''s*sudo''"

text \<open>\<^verbatim>\<open>>\s*/etc/(passwd|shadow|sudoers)\<close>\<close>

definition pat_overwrite_auth :: string where
  "pat_overwrite_auth =
     ''>'' @ bs # ''s*/etc/(passwd|shadow|sudoers)''"

text \<open>\<^verbatim>\<open>>>\s*/etc/(passwd|shadow|sudoers)\<close>\<close>

definition pat_append_auth :: string where
  "pat_append_auth =
     ''>>'' @ bs # ''s*/etc/(passwd|shadow|sudoers)''"

text \<open>\<^verbatim>\<open>\btee\s+(-[a-zA-Z]+\s+)*(/etc/(passwd|shadow|sudoers)|/etc/sudoers\.d/)\<close>\<close>

definition pat_tee_auth :: string where
  "pat_tee_auth =
     bs # ''btee'' @ bs # ''s+(-[a-zA-Z]+'' @
     bs # ''s+)*(/etc/(passwd|shadow|sudoers)|/etc/sudoers'' @ bs # ''.d/)''"

text \<open>\<^verbatim>\<open>chmod\s+(-[a-zA-Z]+\s+)*777\s+/\<close>\<close>

definition pat_chmod_777 :: string where
  "pat_chmod_777 =
     ''chmod'' @ bs # ''s+(-[a-zA-Z]+'' @ bs # ''s+)*777'' @ bs # ''s+/''"

definition DESTRUCTIVE_PATTERNS :: "rule list" where
  "DESTRUCTIVE_PATTERNS =
    [(pat_rm_root, ''CRITICAL: Recursive deletion of root filesystem''),
     (pat_rm_root_contents, ''CRITICAL: Recursive deletion of all root contents''),
     (pat_rm_system_dir, ''CRITICAL: Attempted recursive deletion of system directory''),
     (pat_no_preserve_root, ''CRITICAL: Attempt to bypass root filesystem protection''),
     (pat_mkfs, ''CRITICAL: Filesystem format operation''),
     (pat_dd_disk, ''CRITICAL: Direct disk write''),
     (pat_shred, ''CRITICAL: Disk shredding operation''),
     (pat_wipefs, ''CRITICAL: Filesystem signature wiping'')]"

definition RESOURCE_EXHAUSTION_PATTERNS :: "rule list" where
  "RESOURCE_EXHAUSTION_PATTERNS =
    [(pat_fork_bomb, ''CRITICAL: Fork bomb detected''),
     (pat_fork_bomb_generic, ''CRITICAL: Fork bomb detected (generic pattern)''),
     (pat_while_loop, ''WARNING: Infinite resource consumption loop'')]"

definition NETWORK_PATTERNS :: "rule list" where
  "NETWORK_PATTERNS =
    [(pat_reverse_shell, ''CRITICAL: Reverse shell attempt''),
     (pat_bash_reverse_shell, ''CRITICAL: Bash reverse shell''),
     (pat_pipe_shell, ''WARNING: Remote script execution via pipe to shell''),
     (pat_pipe_python, ''WARNING: Remote script execution via pipe to python''),
     (pat_pipe_sudo, ''CRITICAL: Remote script with sudo'')]"

definition PRIVILEGE_PATTERNS :: "rule list" where
  "PRIVILEGE_PATTERNS =
    [(pat_overwrite_auth, ''CRITICAL: Attempt to overwrite auth files''),
     (pat_append_auth, ''CRITICAL: Attempt to append to auth files''),
     (pat_tee_auth, ''CRITICAL: Attempt to write to auth files via tee''),
     (pat_chmod_777, ''CRITICAL: Dangerous permission change'')]"

definition ALL_PATTERNS :: "rule list" where
  "ALL_PATTERNS =
     DESTRUCTIVE_PATTERNS @ RESOURCE_EXHAUSTION_PATTERNS @ NETWORK_PATTERNS @ PRIVILEGE_PATTERNS"
section \<open>The hook\<close>

datatype exn = JSONDecodeError | AttributeError | ReError | OSError

subsection \<open>\<^verbatim>\<open>validate_command\<close>\<close>

text \<open>\<^verbatim>\<open>re.search(pattern, text, re.IGNORECASE | re.MULTILINE)\<close>: raises \<^verbatim>\<open>re.error\<close>
  when the pattern does not compile, otherwise tells whether there is a match.\<close>

definition re_search :: "string \<Rightarrow> string \<Rightarrow> exn + bool" where
  "re_search pattern text =
     (case re_compile pattern of
        None \<Rightarrow> Inl ReError
      | Some r \<Rightarrow> Inr (search_from r None text))"

text \<open>The loop of \<^verbatim>\<open>validate_command\<close> over a list of rules, with the list of issues
  built so far. \<^verbatim>\<open>except re.error: pass\<close> goes on with the next rule; any other exception
  leaves the loop.\<close>

fun validate_loop :: "rule list \<Rightarrow> string \<Rightarrow> rule list \<Rightarrow> exn + rule list" where
  "validate_loop [] command issues = Inr issues"
| "validate_loop ((pattern, message) # rules) command issues =
     (case re_search pattern (strip command) of
        Inr found \<Rightarrow>
          validate_loop rules command (if found then issues @ [(pattern, message)] else issues)
      | Inl e \<Rightarrow>
          if e = ReError then validate_loop rules command issues else Inl e)"

definition validate_command :: "string \<Rightarrow> exn + rule list" where
  "validate_command command = validate_loop ALL_PATTERNS command []"

subsection \<open>The request\<close>

text \<open>The value \<^verbatim>\<open>json.load\<close> returns. An object is the list of its members; its keys
  are distinct, as those of a Python \<^verbatim>\<open>dict\<close> are.\<close>

datatype json =
    JNull
  | JBool bool
  | JNum int
  | JStr string
  | JArr "json list"
  | JObj "(string \<times> json) list"

text \<open>\<^verbatim>\<open>value.get(key, default)\<close>: only a \<^verbatim>\<open>dict\<close> has the method.\<close>

definition py_get :: "json \<Rightarrow> string \<Rightarrow> json \<Rightarrow> exn + json" where
  "py_get v key dflt =
     (case v of
        JObj kvs \<Rightarrow> Inr (case map_of kvs key of None \<Rightarrow> dflt | Some x \<Rightarrow> x)
      | _ \<Rightarrow> Inl AttributeError)"

text \<open>Truth value of a JSON value in Python, as \<^verbatim>\<open>not command\<close> tests it.\<close>

fun truthy :: "json \<Rightarrow> bool" where
  "truthy JNull = False"
| "truthy (JBool b) = b"
| "truthy (JNum n) = (n \<noteq> 0)"
| "truthy (JStr s) = (s \<noteq> [])"
| "truthy (JArr xs) = (xs \<noteq> [])"
| "truthy (JObj kvs) = (kvs \<noteq> [])"

subsection \<open>\<^verbatim>\<open>log_blocked_command\<close>\<close>

text \<open>
  The logger comes from \<^verbatim>\<open>shared.logging.get_logger\<close>, which is not part of the sources
  at hand, so its behaviour is a parameter of the model: \<open>get_logger\<close> is what the call
  \<^verbatim>\<open>get_logger("bash-safety", LOG_FILE)\<close> does (it raises, or returns a logger or
  \<^verbatim>\<open>None\<close>), and a logger is what its \<^verbatim>\<open>warning\<close> method does (it returns, or
  raises).
\<close>

datatype logger = Logger "exn option"

record env =
  get_logger :: "exn + logger option"

datatype event = Audit string "string list" | Stderr string

definition ENABLE_LOGGING :: bool where
  "ENABLE_LOGGING = True"

text \<open>\<^verbatim>\<open>get_plugin_logger\<close>; the global \<^verbatim>\<open>_logger\<close> is \<^verbatim>\<open>None\<close> when the
  process starts, and the hook calls the function once.\<close>

definition get_plugin_logger :: "env \<Rightarrow> exn + logger option" where
  "get_plugin_logger e = (if ENABLE_LOGGING then get_logger e else Inr None)"

text \<open>The result is the calls made to the logger, and the exception that leaves the
  function, if any.\<close>

definition log_blocked_command :: "env \<Rightarrow> string \<Rightarrow> rule list \<Rightarrow> event list \<times> exn option" where
  "log_blocked_command e command issues =
     (case get_plugin_logger e of
        Inl x \<Rightarrow> ([], Some x)
      | Inr None \<Rightarrow> ([], None)
      | Inr (Some (Logger w)) \<Rightarrow> ([Audit command (map snd issues)], w))"

subsection \<open>\<^verbatim>\<open>main\<close>\<close>

text \<open>
  How the process ends: \<^verbatim>\<open>sys.exit(n)\<close>, or an exception that nothing catches, after
  which the interpreter prints a traceback and exits with status 1. The run of \<open>main\<close>
  takes the outcome of \<^verbatim>\<open>json.load(sys.stdin)\<close> and gives the calls to the logger and
  the lines printed to the error channel, in order, with the way the process ends.
\<close>

datatype ending = Exit nat | Uncaught exn

fun exit_status :: "ending \<Rightarrow> nat" where
  "exit_status (Exit n) = n"
| "exit_status (Uncaught x) = 1"

definition blocked_lines :: "rule list \<Rightarrow> event list" where
  "blocked_lines issues =
     Stderr ''BLOCKED: Dangerous command detected!'' #
     map (\<lambda>(_, msg). Stderr (''  - '' @ msg)) issues"

definition main :: "env \<Rightarrow> exn + json \<Rightarrow> event list \<times> ending" where
  "main e loaded =
    (case loaded of
       Inl x \<Rightarrow> if x = JSONDecodeError then ([], Exit 1) else ([], Uncaught x)
     | Inr input_data \<Rightarrow>
        (case py_get input_data ''tool_name'' JNull of
           Inl x \<Rightarrow> ([], Uncaught x)
         | Inr tool_name \<Rightarrow>
            if tool_name \<noteq> JStr ''Bash'' then ([], Exit 0)
            else
             (case py_get input_data ''tool_input'' (JObj []) of
                Inl x \<Rightarrow> ([], Uncaught x)
              | Inr tool_input \<Rightarrow>
                 (case py_get tool_input ''command'' (JStr []) of
                    Inl x \<Rightarrow> ([], Uncaught x)
                  | Inr command \<Rightarrow>
                     if \<not> truthy command then ([], Exit 0)
                     else
                      (case command of
                         JStr c \<Rightarrow>
                          (case validate_command c of
                             Inl x \<Rightarrow> ([], Uncaught x)
                           | Inr issues \<Rightarrow>
                              if issues \<noteq> [] then
                               (case log_blocked_command e c issues of
                                  (tr, Some x) \<Rightarrow> (tr, Uncaught x)
                                | (tr, None) \<Rightarrow> (tr @ blocked_lines issues, Exit 2))
                              else ([], Exit 0))
                       | _ \<Rightarrow> ([], Uncaught AttributeError))))))"

subsection \<open>Notation for syntax trees\<close>

definition lits :: "string \<Rightarrow> regex list" where
  "lits s = map Lit s"

definition set_azAZ :: regex where
  "set_azAZ = Cls [CRange (CHR ''a'') (CHR ''z''), CRange (CHR ''A'') (CHR ''Z'')]"

subsection \<open>Notions used to state the properties\<close>

text \<open>The lines a run printed to the error channel, and its calls to the logger.\<close>

definition stderr_lines :: "event list \<Rightarrow> string list" where
  "stderr_lines tr = concat (map (\<lambda>ev. case ev of Stderr s \<Rightarrow> [s] | _ \<Rightarrow> []) tr)"

definition audit_calls :: "event list \<Rightarrow> (string \<times> string list) list" where
  "audit_calls tr = concat (map (\<lambda>ev. case ev of Audit c rs \<Rightarrow> [(c, rs)] | _ \<Rightarrow> []) tr)"

text \<open>The tool identifier of a request and its nested command string, where it has one.\<close>

fun tool_name_of :: "json \<Rightarrow> json" where
  "tool_name_of (JObj kvs) = (case map_of kvs ''tool_name'' of None \<Rightarrow> JNull | Some v \<Rightarrow> v)"
| "tool_name_of _ = JNull"

fun command_text :: "json \<Rightarrow> string option" where
  "command_text (JObj kvs) =
     (case map_of kvs ''tool_input'' of
        Some (JObj ti) \<Rightarrow> (case map_of ti ''command'' of Some (JStr c) \<Rightarrow> Some c | _ \<Rightarrow> None)
      | _ \<Rightarrow> None)"
| "command_text _ = None"


text \<open>Trailing whitespace removed, as \<^verbatim>\<open>str.rstrip()\<close> does.\<close>

definition rstrip :: "string \<Rightarrow> string" where
  "rstrip s = rev (dropWhile is_space (rev s))"


text \<open>The letters \<^verbatim>\<open>a\<close> to \<^verbatim>\<open>z\<close> and \<^verbatim>\<open>A\<close> to \<^verbatim>\<open>Z\<close>.\<close>

definition is_ascii_letter :: "char \<Rightarrow> bool" where
  "is_ascii_letter c = (let n = code c in (65 \<le> n \<and> n \<le> 90) \<or> (97 \<le> n \<and> n \<le> 122))"

section \<open>Evaluation\<close>

text \<open>
  The classes are defined by code point. To evaluate them on a character literal the
  simplifier uses their form on the eight bits of the character, proved from the definitions
  by going through all characters.
\<close>

lemma is_space_Char:
  "is_space (Char b0 b1 b2 b3 b4 b5 b6 b7) \<longleftrightarrow>
     (if b7 then (\<not> b6 \<and> (if b5 then (\<not> b4 \<and> (\<not> b3 \<and> (\<not> b2
     \<and> (\<not> b1 \<and> (\<not> b0))))) else (\<not> b4 \<and> (\<not> b3 \<and> (b2 \<and>
     (\<not> b1 \<and> b0)))))) else (\<not> b6 \<and> (if b5 then (\<not> b4 \<and> (\<not> b3
     \<and> (\<not> b2 \<and> (\<not> b1 \<and> (\<not> b0))))) else (if b4 then (b3 \<and> b2)
     else (b3 \<and> (if b2 then (\<not> b1) else (b1 \<or> b0)))))))"
  by (cases b0; cases b1; cases b2; cases b3; cases b4; cases b5; cases b6; cases b7;
      simp add: is_space_def code_def)

lemma is_word_Char:
  "is_word (Char b0 b1 b2 b3 b4 b5 b6 b7) \<longleftrightarrow>
     (if b7 then (if b6 then (if b5 then (\<not> b4 \<or> (b3 \<or> (\<not> b2 \<or> (\<not> b1
     \<or> (\<not> b0))))) else (\<not> b4 \<or> (b3 \<or> (\<not> b2 \<or> (\<not> b1 \<or>
     (\<not> b0)))))) else (b5 \<and> (if b4 then (if b3 then (if b2 then (\<not> b1 \<or>
     (\<not> b0)) else (if b1 then (\<not> b0) else b0)) else (if b2 then (\<not> b1 \<and> b0)
     else b1)) else (b3 \<and> (\<not> b2 \<and> (b1 \<and> (\<not> b0))))))) else (if b6 then
     (if b5 then (if b4 then (\<not> b3 \<or> (\<not> b2 \<and> (\<not> b1 \<or> (\<not> b0))))
     else (b3 \<or> (b2 \<or> (b1 \<or> b0)))) else (if b4 then (\<not> b3 \<or> (if b2 then (b1
     \<and> b0) else (\<not> b1 \<or> (\<not> b0)))) else (b3 \<or> (b2 \<or> (b1 \<or> b0)))))
     else (b5 \<and> (b4 \<and> (\<not> b3 \<or> (\<not> b2 \<and> (\<not> b1)))))))"
  by (cases b0; cases b1; cases b2; cases b3; cases b4; cases b5; cases b6; cases b7;
      simp add: is_word_def code_def)

lemma is_upper_Char:
  "is_upper (Char b0 b1 b2 b3 b4 b5 b6 b7) \<longleftrightarrow>
     (if b7 then (b6 \<and> (\<not> b5 \<and> (\<not> b4 \<or> (if b3 then (\<not> b2 \<or>
     (\<not> b1 \<or> (\<not> b0))) else (\<not> b2 \<or> (\<not> b1 \<or> (\<not> b0))))))) else
     (b6 \<and> (\<not> b5 \<and> (if b4 then (\<not> b3 \<or> (\<not> b2 \<and> (\<not> b1 \<or>
     (\<not> b0)))) else (b3 \<or> (b2 \<or> (b1 \<or> b0)))))))"
  by (cases b0; cases b1; cases b2; cases b3; cases b4; cases b5; cases b6; cases b7;
      simp add: is_upper_def code_def)

lemma is_lower_Char:
  "is_lower (Char b0 b1 b2 b3 b4 b5 b6 b7) \<longleftrightarrow>
     (if b7 then (b6 \<and> (b5 \<and> (\<not> b4 \<or> (if b3 then (\<not> b2 \<or> (\<not> b1
     \<or> (\<not> b0))) else (\<not> b2 \<or> (\<not> b1 \<or> (\<not> b0))))))) else (b6 \<and>
     (b5 \<and> (if b4 then (\<not> b3 \<or> (\<not> b2 \<and> (\<not> b1 \<or> (\<not> b0))))
     else (b3 \<or> (b2 \<or> (b1 \<or> b0)))))))"
  by (cases b0; cases b1; cases b2; cases b3; cases b4; cases b5; cases b6; cases b7;
      simp add: is_lower_def code_def)

lemma is_ascii_Char:
  "is_ascii (Char b0 b1 b2 b3 b4 b5 b6 b7) \<longleftrightarrow> \<not> b7"
  by (cases b0; cases b1; cases b2; cases b3; cases b4; cases b5; cases b6; cases b7;
      simp add: is_ascii_def code_def)

lemma lower_Char:
  "lower (Char b0 b1 b2 b3 b4 b5 b6 b7) =
     Char b0 b1 b2 b3 b4 (b5 \<or> is_upper (Char b0 b1 b2 b3 b4 b5 b6 b7)) b6 b7"
  by (cases b0; cases b1; cases b2; cases b3; cases b4; cases b5; cases b6; cases b7;
      simp add: lower_def is_upper_def code_def char_of_eq_iff)

lemma upper_Char:
  "upper (Char b0 b1 b2 b3 b4 b5 b6 b7) =
     Char b0 b1 b2 b3 b4 (b5 \<and> \<not> is_lower (Char b0 b1 b2 b3 b4 b5 b6 b7)) b6 b7"
  by (cases b0; cases b1; cases b2; cases b3; cases b4; cases b5; cases b6; cases b7;
      simp add: upper_def is_lower_def code_def char_of_eq_iff)

lemma citem_has_az:
  "citem_has (CRange (CHR ''a'') (CHR ''z'')) (Char b0 b1 b2 b3 b4 b5 b6 b7) \<longleftrightarrow>
     (\<not> b7 \<and> b6 \<and> (if b4 then (\<not> b3 \<or> (\<not> b2 \<and> (\<not> b1 \<or> \<not> b0)))
        else (b3 \<or> b2 \<or> b1 \<or> b0)))"
  by (cases b0; cases b1; cases b2; cases b3; cases b4; cases b5; cases b6; cases b7;
      simp add: citem_has.simps lower_def upper_def is_upper_def is_lower_def code_def)

lemma citem_has_AZ:
  "citem_has (CRange (CHR ''A'') (CHR ''Z'')) (Char b0 b1 b2 b3 b4 b5 b6 b7) \<longleftrightarrow>
     (\<not> b7 \<and> b6 \<and> (if b4 then (\<not> b3 \<or> (\<not> b2 \<and> (\<not> b1 \<or> \<not> b0)))
        else (b3 \<or> b2 \<or> b1 \<or> b0)))"
  by (cases b0; cases b1; cases b2; cases b3; cases b4; cases b5; cases b6; cases b7;
      simp add: citem_has.simps lower_def upper_def is_upper_def is_lower_def code_def)

lemma citem_has_09:
  "citem_has (CRange (CHR ''0'') (CHR ''9'')) (Char b0 b1 b2 b3 b4 b5 b6 b7) \<longleftrightarrow>
     (\<not> b7 \<and> \<not> b6 \<and> b5 \<and> b4 \<and> (\<not> b3 \<or> (\<not> b2 \<and> \<not> b1)))"
  by (cases b0; cases b1; cases b2; cases b3; cases b4; cases b5; cases b6; cases b7;
      simp add: citem_has.simps lower_def upper_def is_upper_def is_lower_def code_def)

lemmas char_eval =
  is_space_Char is_word_Char is_upper_Char is_lower_Char is_ascii_Char lower_Char upper_Char
  citem_has_az citem_has_AZ citem_has_09

lemmas match_eval =
  char_eval one_char_def peek_def word_at_def star_m_def alt_m_def capture_def backref_def lits_def

lemmas parse_eval =
  re_compile_def step_def step_normal_def step_escaped_def step_class_def add_item_def
  finish_def digit_of_def peek_def code_def lits_def is_word_Char is_ascii_Char

subsection \<open>The syntax trees of the patterns\<close>

text \<open>What \<open>re_compile\<close> makes of each pattern of the lists.\<close>

lemma compile_rm_root:
  "re_compile pat_rm_root = Some
     (Cat (lits ''rm'' @ [Plus Space, Star (Group 1 (Cat [Lit (CHR ''-''), Star (set_azAZ), Cls
      [CChar (CHR ''r''), CChar (CHR ''f'')], Star (set_azAZ), Plus Space])), Group 2 (Alts [Cat
      [Lit (CHR ''/''), Star Space, Eol], Cat [Lit (CHR ''/''), Star Space, Cls [CChar (CHR
      '';''), CChar (CHR ''&''), CChar (CHR ''|'')]], Cat [Lit (CHR ''/''), Star Space, Lit
      nl]])]))"
  by (simp add: pat_rm_root_def set_azAZ_def parse_eval)

lemma compile_rm_root_contents:
  "re_compile pat_rm_root_contents = Some
     (Cat (lits ''rm'' @ [Plus Space, Star Dot, Lit (CHR ''-''), Star (set_azAZ), Lit (CHR
      ''r''), Star (set_azAZ), Star Dot, Plus Space] @ lits ''/*''))"
  by (simp add: pat_rm_root_contents_def set_azAZ_def parse_eval)

lemma compile_rm_system_dir:
  "re_compile pat_rm_system_dir = Some
     (Cat (lits ''rm'' @ [Plus Space, Star (Group 1 (Cat [Lit (CHR ''-''), Plus (set_azAZ), Plus
      Space])), Lit (CHR ''-''), Star (set_azAZ), Lit (CHR ''r''), Star (set_azAZ), Star (Group
      2 (Cat [Plus Space, Lit (CHR ''-''), Plus (set_azAZ)])), Plus Space, Group 3 (Alts [Lit
      (CHR ''/''), Cat (lits ''/bin''), Cat (lits ''/boot''), Cat (lits ''/dev''), Cat (lits
      ''/etc''), Cat (lits ''/home''), Cat (lits ''/lib''), Cat (lits ''/opt''), Cat (lits
      ''/root''), Cat (lits ''/sbin''), Cat (lits ''/sys''), Cat (lits ''/usr''), Cat (lits
      ''/var'')]), Group 4 (Alts [Space, Eol, Cls [CChar (CHR '';''), CChar (CHR ''&''), CChar
      (CHR ''|'')]])]))"
  by (simp add: pat_rm_system_dir_def set_azAZ_def parse_eval)

lemma compile_no_preserve_root:
  "re_compile pat_no_preserve_root = Some
     (Cat (lits ''rm'' @ [Plus Space, Star Dot] @ lits ''--no-preserve-root''))"
  by (simp add: pat_no_preserve_root_def set_azAZ_def parse_eval)

lemma compile_mkfs:
  "re_compile pat_mkfs = Some
     (Cat (lits ''mkfs.''))"
  by (simp add: pat_mkfs_def set_azAZ_def parse_eval)

lemma compile_dd_disk:
  "re_compile pat_dd_disk = Some
     (Cat (lits ''dd'' @ [Plus Space, Star Dot] @ lits ''of=/dev/'' @ [Group 1 (Alts [Cat (lits
      ''sd'' @ [Cls [CRange (CHR ''a'') (CHR ''z'')]]), Cat (lits ''nvme''), Cat (lits ''hd'' @
      [Cls [CRange (CHR ''a'') (CHR ''z'')]]), Cat (lits ''vd'' @ [Cls [CRange (CHR ''a'') (CHR
      ''z'')]])])]))"
  by (simp add: pat_dd_disk_def set_azAZ_def parse_eval)

lemma compile_shred:
  "re_compile pat_shred = Some
     (Cat ([Wordb] @ lits ''shred'' @ [Plus Space, Star Dot, Group 1 (Alts [Cat (lits ''/dev/''
      @ [Group 2 (Alts [Cat (lits ''sd'' @ [Cls [CRange (CHR ''a'') (CHR ''z'')]]), Cat (lits
      ''nvme''), Cat (lits ''hd'' @ [Cls [CRange (CHR ''a'') (CHR ''z'')]]), Cat (lits ''vd'' @
      [Cls [CRange (CHR ''a'') (CHR ''z'')]])])]), Cat (lits ''/dev/'' @ [Plus (Cls [CRange (CHR
      ''a'') (CHR ''z'')]), Star (Cls [CRange (CHR ''0'') (CHR ''9'')])])])]))"
  by (simp add: pat_shred_def set_azAZ_def parse_eval)

lemma compile_wipefs:
  "re_compile pat_wipefs = Some
     (Cat ([Wordb] @ lits ''wipefs'' @ [Plus Space]))"
  by (simp add: pat_wipefs_def set_azAZ_def parse_eval)

lemma compile_fork_bomb:
  "re_compile pat_fork_bomb = Some
     (Cat (lits '':()'' @ [Star Space, Lit (CHR ''{''), Star Space, Lit (CHR '':''), Star Space,
      Lit (CHR ''|''), Star Space, Lit (CHR '':''), Star Space, Lit (CHR ''&''), Star Space, Lit
      (CHR ''}''), Star Space, Opt (Lit (CHR '';'')), Star Space, Lit (CHR '':'')]))"
  by (simp add: pat_fork_bomb_def set_azAZ_def parse_eval)

lemma compile_fork_bomb_generic:
  "re_compile pat_fork_bomb_generic = Some
     (Cat ([Wordb, Group 1 Word] @ lits ''()'' @ [Star Space, Lit (CHR ''{''), Star Space,
      Backref 1, Star Space, Lit (CHR ''|''), Star Space, Backref 1, Star Space, Lit (CHR
      ''&''), Star Space, Lit (CHR ''}''), Star Space, Opt (Lit (CHR '';'')), Star Space,
      Backref 1, Wordb]))"
  by (simp add: pat_fork_bomb_generic_def set_azAZ_def parse_eval)

lemma compile_while_loop:
  "re_compile pat_while_loop = Some
     (Cat (lits ''while'' @ [Star Space, Group 1 (Alts [Cat (lits ''true''), Lit (CHR ''1''),
      Lit (CHR '':'')]), Star Space, Lit (CHR '';''), Star Space] @ lits ''do'' @ [Star Space,
      Group 2 (Alts [Cat (lits ''cat''), Cat (lits ''yes''), Cat (lits ''dd'')])]))"
  by (simp add: pat_while_loop_def set_azAZ_def parse_eval)

lemma compile_reverse_shell:
  "re_compile pat_reverse_shell = Some
     (Cat ([Group 1 (Alts [Cat (lits ''nc''), Cat (lits ''ncat''), Cat (lits ''netcat'')]), Plus
      Space, Star Dot] @ lits ''-e'' @ [Star Space] @ lits ''/bin/'' @ [Opt (Group 2 (Cat (lits
      ''ba'')))] @ lits ''sh''))"
  by (simp add: pat_reverse_shell_def set_azAZ_def parse_eval)

lemma compile_bash_reverse_shell:
  "re_compile pat_bash_reverse_shell = Some
     (Cat (lits ''bash'' @ [Plus Space] @ lits ''-i'' @ [Plus Space] @ lits ''>&'' @ [Star
      Space] @ lits ''/dev/tcp/''))"
  by (simp add: pat_bash_reverse_shell_def set_azAZ_def parse_eval)

lemma compile_pipe_shell:
  "re_compile pat_pipe_shell = Some
     (Cat ([Group 1 (Alts [Cat (lits ''curl''), Cat (lits ''wget'')]), Plus Space, Star Dot, Lit
      (CHR ''|''), Star Space, Opt (Group 2 (Cat (lits ''ba'')))] @ lits ''sh''))"
  by (simp add: pat_pipe_shell_def set_azAZ_def parse_eval)

lemma compile_pipe_python:
  "re_compile pat_pipe_python = Some
     (Cat ([Group 1 (Alts [Cat (lits ''curl''), Cat (lits ''wget'')]), Plus Space, Star Dot, Lit
      (CHR ''|''), Star Space] @ lits ''python'' @ [Opt (Cls [CChar (CHR ''2''), CChar (CHR
      ''3'')])]))"
  by (simp add: pat_pipe_python_def set_azAZ_def parse_eval)

lemma compile_pipe_sudo:
  "re_compile pat_pipe_sudo = Some
     (Cat ([Group 1 (Alts [Cat (lits ''curl''), Cat (lits ''wget'')]), Plus Space, Star Dot, Lit
      (CHR ''|''), Star Space] @ lits ''sudo''))"
  by (simp add: pat_pipe_sudo_def set_azAZ_def parse_eval)

lemma compile_overwrite_auth:
  "re_compile pat_overwrite_auth = Some
     (Cat ([Lit (CHR ''>''), Star Space] @ lits ''/etc/'' @ [Group 1 (Alts [Cat (lits
      ''passwd''), Cat (lits ''shadow''), Cat (lits ''sudoers'')])]))"
  by (simp add: pat_overwrite_auth_def set_azAZ_def parse_eval)

lemma compile_append_auth:
  "re_compile pat_append_auth = Some
     (Cat (lits ''>>'' @ [Star Space] @ lits ''/etc/'' @ [Group 1 (Alts [Cat (lits ''passwd''),
      Cat (lits ''shadow''), Cat (lits ''sudoers'')])]))"
  by (simp add: pat_append_auth_def set_azAZ_def parse_eval)

lemma compile_tee_auth:
  "re_compile pat_tee_auth = Some
     (Cat ([Wordb] @ lits ''tee'' @ [Plus Space, Star (Group 1 (Cat [Lit (CHR ''-''), Plus
      (set_azAZ), Plus Space])), Group 2 (Alts [Cat (lits ''/etc/'' @ [Group 3 (Alts [Cat (lits
      ''passwd''), Cat (lits ''shadow''), Cat (lits ''sudoers'')])]), Cat (lits
      ''/etc/sudoers.d/'')])]))"
  by (simp add: pat_tee_auth_def set_azAZ_def parse_eval)

lemma compile_chmod_777:
  "re_compile pat_chmod_777 = Some
     (Cat (lits ''chmod'' @ [Plus Space, Star (Group 1 (Cat [Lit (CHR ''-''), Plus (set_azAZ),
      Plus Space]))] @ lits ''777'' @ [Plus Space, Lit (CHR ''/'')]))"
  by (simp add: pat_chmod_777_def set_azAZ_def parse_eval)

lemmas compile_all =
  compile_rm_root compile_rm_root_contents compile_rm_system_dir compile_no_preserve_root
  compile_mkfs compile_dd_disk compile_shred compile_wipefs compile_fork_bomb
  compile_fork_bomb_generic compile_while_loop compile_reverse_shell compile_bash_reverse_shell
  compile_pipe_shell compile_pipe_python compile_pipe_sudo compile_overwrite_auth
  compile_append_auth compile_tee_auth compile_chmod_777

lemmas validate_eval =
  validate_command_def ALL_PATTERNS_def DESTRUCTIVE_PATTERNS_def RESOURCE_EXHAUSTION_PATTERNS_def
  NETWORK_PATTERNS_def PRIVILEGE_PATTERNS_def re_search_def strip_def compile_all match_eval
  set_azAZ_def

section \<open>The loop of \<^verbatim>\<open>validate_command\<close>\<close>

lemma re_search_cases: "re_search p s = Inl ReError \<or> (\<exists>b. re_search p s = Inr b)"
  by (simp add: re_search_def split: option.split)

lemma validate_loop_eq:
  "validate_loop rules c acc =
     Inr (acc @ filter (\<lambda>(p, msg). re_search p (strip c) = Inr True) rules)"
proof (induction rules arbitrary: acc)
  case Nil
  then show ?case by simp
next
  case (Cons rule rules)
  obtain p msg where rule: "rule = (p, msg)" by (cases rule)
  from re_search_cases [of p "strip c"] show ?case
  proof
    assume "re_search p (strip c) = Inl ReError"
    then show ?thesis by (simp add: rule Cons.IH)
  next
    assume "\<exists>b. re_search p (strip c) = Inr b"
    then obtain b where "re_search p (strip c) = Inr b" ..
    then show ?thesis by (cases b) (simp_all add: rule Cons.IH)
  qed
qed

lemma validate_command_eq:
  "validate_command c = Inr (filter (\<lambda>(p, msg). re_search p (strip c) = Inr True) ALL_PATTERNS)"
  by (simp add: validate_command_def validate_loop_eq)




section \<open>The run of \<^verbatim>\<open>main\<close>\<close>

lemma stderr_lines_blocked:
  "stderr_lines (blocked_lines issues) =
     ''BLOCKED: Dangerous command detected!'' # map (\<lambda>(p, msg). ''  - '' @ msg) issues"
  by (induction issues) (auto simp: stderr_lines_def blocked_lines_def)

lemma main_blocked_branch:
  assumes "tool_name_of req = JStr ''Bash''" and "command_text req = Some c" and "c \<noteq> []"
    and "validate_command c = Inr issues" and "issues \<noteq> []"
  shows "main e (Inr req) =
     (case log_blocked_command e c issues of
        (tr, Some x) \<Rightarrow> (tr, Uncaught x)
      | (tr, None) \<Rightarrow> (tr @ blocked_lines issues, Exit 2))"
proof (cases req)
  case (JObj kvs)
  from assms(2) obtain ti where ti: "map_of kvs ''tool_input'' = Some (JObj ti)"
    and cmd: "map_of ti ''command'' = Some (JStr c)"
    by (auto simp: JObj split: option.splits json.splits)
  from assms(1) have tn: "map_of kvs ''tool_name'' = Some (JStr ''Bash'')"
    by (auto simp: JObj split: option.splits)
  show ?thesis
    using assms(3-5) by (simp add: main_def py_get_def JObj ti cmd tn)
qed (use assms in simp_all)

lemma main_status_2:
  "exit_status (snd (main e (Inr req))) = 2 \<Longrightarrow>
     \<exists>c issues. tool_name_of req = JStr ''Bash'' \<and> command_text req = Some c \<and> c \<noteq> [] \<and>
        validate_command c = Inr issues \<and> issues \<noteq> []"
  by (cases req)
     (auto simp: main_def py_get_def validate_command_eq
           split: option.splits json.splits if_splits sum.splits prod.splits)

lemma validate_rm_rf_root:
  "validate_command ''rm -rf /'' =
     Inr [(pat_rm_root, ''CRITICAL: Recursive deletion of root filesystem''),
          (pat_rm_system_dir, ''CRITICAL: Attempted recursive deletion of system directory'')]"
  by (simp add: validate_eval)


text \<open>C9. When \<^verbatim>\<open>json.load\<close> fails on the request, the run ends at once with exit
  status 1: nothing is printed and the logger is not called. For a \<^verbatim>\<open>JSONDecodeError\<close>
  the hook itself calls \<^verbatim>\<open>sys.exit(1)\<close>.\<close>

theorem malformed_request_exits_1:
  "main e (Inl JSONDecodeError) = ([], Exit 1) \<and>
   fst (main e (Inl x)) = [] \<and> exit_status (snd (main e (Inl x))) = 1"
  by (simp add: main_def)

theorem malformed_request_exits_1_witness:
  "audit_calls (fst (main \<lparr>get_logger = Inr (Some (Logger None))\<rparr> (Inl JSONDecodeError))) = [] \<and>
   exit_status (snd (main \<lparr>get_logger = Inr (Some (Logger None))\<rparr> (Inl JSONDecodeError))) = 1"
  using malformed_request_exits_1 [of "\<lparr>get_logger = Inr (Some (Logger None))\<rparr>" JSONDecodeError]
  by (simp add: audit_calls_def)

section \<open>Matching text that is only partly known\<close>

text \<open>A search succeeds when the pattern matches at some split of the text; stripping keeps
  a part of the text that begins and ends with characters other than whitespace; a repeat of
  a one-character pattern runs over any stretch of characters of its class.\<close>

lemma search_from_append:
  "m r \<lparr>prev = (if xs = [] then p else Some (last xs)), rest = ys, caps = Map.empty\<rparr> \<noteq> []
   \<Longrightarrow> search_from r p (xs @ ys)"
proof (induction xs arbitrary: p)
  case Nil
  then show ?case by (cases ys) simp_all
next
  case (Cons x xs)
  have "search_from r (Some x) (xs @ ys)"
    by (rule Cons.IH) (use Cons.prems in \<open>simp split: if_splits\<close>)
  then show ?case by simp
qed

lemma dropWhile_append_keep:
  "ys \<noteq> [] \<Longrightarrow> \<not> P (hd ys) \<Longrightarrow> dropWhile P (xs @ ys) = dropWhile P xs @ ys"
  by (induction xs) (auto simp: neq_Nil_conv)

lemma strip_around:
  assumes "core \<noteq> []" and "\<not> is_space (hd core)" and "\<not> is_space (last core)"
  shows "strip (pre @ core @ suf) = dropWhile is_space pre @ core @ rstrip suf"
proof -
  have 1: "dropWhile is_space (pre @ core @ suf) = dropWhile is_space pre @ core @ suf"
    using assms by (simp add: dropWhile_append_keep)
  have 2: "dropWhile is_space (rev suf @ rev core @ rev (dropWhile is_space pre)) =
           dropWhile is_space (rev suf) @ rev core @ rev (dropWhile is_space pre)"
    using assms by (simp add: dropWhile_append_keep hd_append hd_rev)
  show ?thesis by (simp add: strip_def rstrip_def 1 2)
qed

lemma rstrip_prefix: "\<exists>b. s = rstrip s @ b"
proof -
  have "rev (rev s) = rev (takeWhile is_space (rev s) @ dropWhile is_space (rev s))"
    by (simp only: takeWhile_dropWhile_id)
  then have "s = rstrip s @ rev (takeWhile is_space (rev s))"
    by (simp only: rev_rev_ident rev_append rstrip_def)
  then show ?thesis ..
qed

lemma star_from_self: "st \<in> set (star_from f n st)"
  by (cases n) simp_all

lemma star_from_mono: "n \<le> n' \<Longrightarrow> set (star_from f n st) \<subseteq> set (star_from f n' st)"
proof (induction n arbitrary: n' st)
  case 0
  then show ?case by (simp add: star_from_self)
next
  case (Suc n)
  then obtain k where k: "n' = Suc k" "n \<le> k" by (cases n') auto
  show ?case using Suc.IH [OF k(2)] by (auto simp: k(1))
qed

lemma star_m_self: "st \<in> set (star_m f st)"
  by (simp add: star_m_def star_from_self)

lemma star_m_step:
  assumes "st1 \<in> set (f st)" and "length (rest st1) < length (rest st)"
    and "st2 \<in> set (star_m f st1)"
  shows "st2 \<in> set (star_m f st)"
proof -
  from assms(2) obtain k where k: "length (rest st) = Suc k" "length (rest st1) \<le> k"
    by (cases "length (rest st)") auto
  from assms(3) star_from_mono [OF k(2)] have "st2 \<in> set (star_from f k st1)"
    by (auto simp: star_m_def)
  with assms(1,2) show ?thesis by (auto simp: star_m_def k(1))
qed

lemma star_m_one_char:
  "\<forall>c\<in>set ws. P c \<Longrightarrow>
   \<lparr>prev = (if ws = [] then p else Some (last ws)), rest = t, caps = g\<rparr>
     \<in> set (star_m (one_char P) \<lparr>prev = p, rest = ws @ t, caps = g\<rparr>)"
proof (induction ws arbitrary: p)
  case Nil
  then show ?case by (simp add: star_m_self)
next
  case (Cons w ws)
  show ?case
  proof (rule star_m_step)
    show "\<lparr>prev = Some w, rest = ws @ t, caps = g\<rparr>
            \<in> set (one_char P \<lparr>prev = p, rest = (w # ws) @ t, caps = g\<rparr>)"
      using Cons.prems by (simp add: one_char_def)
    show "length (rest \<lparr>prev = Some w, rest = ws @ t, caps = g\<rparr>)
            < length (rest \<lparr>prev = p, rest = (w # ws) @ t, caps = g\<rparr>)"
      by simp
    show "\<lparr>prev = (if w # ws = [] then p else Some (last (w # ws))), rest = t, caps = g\<rparr>
            \<in> set (star_m (one_char P) \<lparr>prev = Some w, rest = ws @ t, caps = g\<rparr>)"
      using Cons.IH [of "Some w"] Cons.prems by (cases "ws = []") simp_all
  qed
qed

lemma m_Space_eq: "m Space = one_char is_space"
  by (rule ext) simp

lemma m_Dot_eq: "m Dot = one_char (\<lambda>x. x \<noteq> nl)"
  by (rule ext) simp

lemma m_Lit_eq: "m (Lit c) = one_char (\<lambda>x. lower x = lower c)"
  by (rule ext) simp

lemma m_Cls_eq: "m (Cls cis) = one_char (\<lambda>x. \<exists>i \<in> set cis. citem_has i x)"
  by (rule ext) simp

lemma one_char_Cons:
  "one_char P \<lparr>prev = p, rest = x # xs, caps = g\<rparr> =
     (if P x then [\<lparr>prev = Some x, rest = xs, caps = g\<rparr>] else [])"
  by (simp add: one_char_def)

lemma one_char_Nil: "one_char P \<lparr>prev = p, rest = [], caps = g\<rparr> = []"
  by (simp add: one_char_def)

lemma star_m_one_char_Cons:
  "star_m (one_char P) \<lparr>prev = p, rest = x # xs, caps = g\<rparr> =
     (if P x then star_m (one_char P) \<lparr>prev = Some x, rest = xs, caps = g\<rparr> @
                  [\<lparr>prev = p, rest = x # xs, caps = g\<rparr>]
      else [\<lparr>prev = p, rest = x # xs, caps = g\<rparr>])"
  by (simp add: star_m_def one_char_def)

lemma star_m_one_char_Nil:
  "star_m (one_char P) \<lparr>prev = p, rest = [], caps = g\<rparr> = [\<lparr>prev = p, rest = [], caps = g\<rparr>]"
  by (simp add: star_m_def)

lemma star_m_Group:
  "star_m (m (Group k r)) st = star_from (m (Group k r)) (length (rest st)) st"
  by (simp add: star_m_def)

lemmas sym_eval =
  m_Space_eq m_Dot_eq m_Lit_eq m_Cls_eq one_char_Cons one_char_Nil star_m_one_char_Cons
  star_m_one_char_Nil star_m_Group peek_def word_at_def alt_m_def capture_def backref_def lits_def
  set_azAZ_def char_eval



lemma two_members: "x \<in> set xs \<Longrightarrow> y \<in> set xs \<Longrightarrow> x \<noteq> y \<Longrightarrow> 2 \<le> length xs"
  by (cases xs; cases "tl xs") auto

lemma issue_member:
  "validate_command c = Inr issues \<Longrightarrow> (p, msg) \<in> set ALL_PATTERNS \<Longrightarrow>
   re_compile p = Some r \<Longrightarrow> search_from r None (strip c) \<Longrightarrow> (p, msg) \<in> set issues"
  by (auto simp: validate_command_eq re_search_def)


lemma rstrip_Nil_or_same_head:
  "t = [] \<or> (\<exists>u. t = x # u) \<Longrightarrow> rstrip t = [] \<or> (\<exists>u. rstrip t = x # u)"
  using rstrip_prefix [of t] by (cases "rstrip t") auto

section \<open>Exit status, reasons and the audit call\<close>




text \<open>C2. A run that ends with exit status 2 has printed, after the heading line, one line
  for each issue that \<^verbatim>\<open>validate_command\<close> returned for the command, with the message
  of that issue, in the same order; the issues are the rules of \<open>ALL_PATTERNS\<close> that match,
  in the order of that list. So there are as many reason lines as matches.\<close>

theorem blocked_reasons_are_all_matches:
  assumes "exit_status (snd (main e (Inr req))) = 2"
  shows "\<exists>c issues. command_text req = Some c \<and> validate_command c = Inr issues \<and>
           issues = filter (\<lambda>(p, msg). re_search p (strip c) = Inr True) ALL_PATTERNS \<and>
           stderr_lines (fst (main e (Inr req))) =
             ''BLOCKED: Dangerous command detected!'' # map (\<lambda>(p, msg). ''  - '' @ msg) issues \<and>
           length (stderr_lines (fst (main e (Inr req)))) = Suc (length issues)"
proof -
  from main_status_2 [OF assms] obtain c issues
    where b: "tool_name_of req = JStr ''Bash''" "command_text req = Some c" "c \<noteq> []"
      "validate_command c = Inr issues" "issues \<noteq> []"
    by blast
  have m: "main e (Inr req) =
     (case log_blocked_command e c issues of
        (tr, Some x) \<Rightarrow> (tr, Uncaught x)
      | (tr, None) \<Rightarrow> (tr @ blocked_lines issues, Exit 2))"
    by (rule main_blocked_branch [OF b])
  obtain tr x where l: "log_blocked_command e c issues = (tr, x)"
    by (cases "log_blocked_command e c issues")
  from assms m l have x: "x = None" by (cases x) simp_all
  have tr: "stderr_lines tr = []"
    using l by (auto simp: log_blocked_command_def stderr_lines_def
        split: sum.splits option.splits logger.splits)
  have "stderr_lines (fst (main e (Inr req))) = stderr_lines (blocked_lines issues)"
    using tr by (simp add: m l x stderr_lines_def)
  then have lines: "stderr_lines (fst (main e (Inr req))) =
      ''BLOCKED: Dangerous command detected!'' # map (\<lambda>(p, msg). ''  - '' @ msg) issues"
    by (simp add: stderr_lines_blocked)
  have "issues = filter (\<lambda>(p, msg). re_search p (strip c) = Inr True) ALL_PATTERNS"
    using b(4) by (simp add: validate_command_eq)
  with b lines show ?thesis by simp
qed

theorem blocked_reasons_are_all_matches_witness:
  "exit_status (snd (main \<lparr>get_logger = Inr (Some (Logger None))\<rparr>
     (Inr (JObj [(''tool_name'', JStr ''Bash''),
                 (''tool_input'', JObj [(''command'', JStr ''rm -rf /'')])])))) = 2 \<and>
   stderr_lines (fst (main \<lparr>get_logger = Inr (Some (Logger None))\<rparr>
     (Inr (JObj [(''tool_name'', JStr ''Bash''),
                 (''tool_input'', JObj [(''command'', JStr ''rm -rf /'')])])))) =
     [''BLOCKED: Dangerous command detected!'',
      ''  - CRITICAL: Recursive deletion of root filesystem'',
      ''  - CRITICAL: Attempted recursive deletion of system directory'']"
proof -
  let ?req = "JObj [(''tool_name'', JStr ''Bash''),
                    (''tool_input'', JObj [(''command'', JStr ''rm -rf /'')])]"
  let ?e = "\<lparr>get_logger = Inr (Some (Logger None))\<rparr>"
  have s: "exit_status (snd (main ?e (Inr ?req))) = 2"
    by (simp add: main_def py_get_def validate_rm_rf_root log_blocked_command_def
        get_plugin_logger_def ENABLE_LOGGING_def)
  from blocked_reasons_are_all_matches [OF s] obtain c issues
    where c: "command_text ?req = Some c" and v: "validate_command c = Inr issues"
      and l: "stderr_lines (fst (main ?e (Inr ?req))) =
        ''BLOCKED: Dangerous command detected!'' # map (\<lambda>(p, msg). ''  - '' @ msg) issues"
    by blast
  from c have "c = ''rm -rf /''" by simp
  with v have "issues = [(pat_rm_root, ''CRITICAL: Recursive deletion of root filesystem''),
      (pat_rm_system_dir, ''CRITICAL: Attempted recursive deletion of system directory'')]"
    by (simp add: validate_rm_rf_root)
  with l s show ?thesis by simp
qed

text \<open>C3 (as amended). In the blocked branch the hook calls \<^verbatim>\<open>log_blocked_command\<close>
  with the command and the issues before it prints anything. When there is a logger and
  its call returns, the trace is the call with the command and the messages, then the
  blocked lines, and the exit status is 2; when there is no logger, the trace is the blocked
  lines alone, with exit status 2. An exception that leaves the logger is not caught: the
  run ends with it, nothing is printed, and the exit status is 1.\<close>

theorem audit_call_precedes_response:
  assumes "tool_name_of req = JStr ''Bash''" and "command_text req = Some c" and "c \<noteq> []"
    and "validate_command c = Inr issues" and "issues \<noteq> []"
  shows "(get_logger e = Inr (Some (Logger None)) \<longrightarrow>
            main e (Inr req) = (Audit c (map snd issues) # blocked_lines issues, Exit 2)) \<and>
         (get_logger e = Inr None \<longrightarrow> main e (Inr req) = (blocked_lines issues, Exit 2)) \<and>
         (get_logger e = Inr (Some (Logger (Some x))) \<longrightarrow>
            main e (Inr req) = ([Audit c (map snd issues)], Uncaught x)) \<and>
         (get_logger e = Inl x \<longrightarrow> main e (Inr req) = ([], Uncaught x))"
  by (simp add: main_blocked_branch [OF assms] log_blocked_command_def get_plugin_logger_def
      ENABLE_LOGGING_def)

theorem audit_call_precedes_response_witness:
  "main \<lparr>get_logger = Inr (Some (Logger None))\<rparr>
     (Inr (JObj [(''tool_name'', JStr ''Bash''),
                 (''tool_input'', JObj [(''command'', JStr ''rm -rf /'')])])) =
     ([Audit ''rm -rf /'' [''CRITICAL: Recursive deletion of root filesystem'',
                          ''CRITICAL: Attempted recursive deletion of system directory''],
       Stderr ''BLOCKED: Dangerous command detected!'',
       Stderr ''  - CRITICAL: Recursive deletion of root filesystem'',
       Stderr ''  - CRITICAL: Attempted recursive deletion of system directory''], Exit 2)"
  using audit_call_precedes_response
    [of "JObj [(''tool_name'', JStr ''Bash''),
               (''tool_input'', JObj [(''command'', JStr ''rm -rf /'')])]"
        "''rm -rf /''"
        "[(pat_rm_root, ''CRITICAL: Recursive deletion of root filesystem''),
          (pat_rm_system_dir, ''CRITICAL: Attempted recursive deletion of system directory'')]"
        "\<lparr>get_logger = Inr (Some (Logger None))\<rparr>"]
  by (simp add: validate_rm_rf_root blocked_lines_def)

text \<open>The claim as stated fails when the logger raises: for the command
  \<^verbatim>\<open>rm -rf /\<close>, which two rules match, the run ends with the exception and exit
  status 1, and prints no blocked line.\<close>

theorem audit_failure_changes_outcome:
  "main \<lparr>get_logger = Inl OSError\<rparr>
     (Inr (JObj [(''tool_name'', JStr ''Bash''),
                 (''tool_input'', JObj [(''command'', JStr ''rm -rf /'')])])) =
     ([], Uncaught OSError) \<and>
   exit_status (snd (main \<lparr>get_logger = Inl OSError\<rparr>
     (Inr (JObj [(''tool_name'', JStr ''Bash''),
                 (''tool_input'', JObj [(''command'', JStr ''rm -rf /'')])])))) = 1 \<and>
   exit_status (snd (main \<lparr>get_logger = Inr (Some (Logger (Some OSError)))\<rparr>
     (Inr (JObj [(''tool_name'', JStr ''Bash''),
                 (''tool_input'', JObj [(''command'', JStr ''rm -rf /'')])])))) = 1"
  by (simp add: main_def py_get_def validate_rm_rf_root log_blocked_command_def
      get_plugin_logger_def ENABLE_LOGGING_def)

section \<open>Redirection into the authentication files\<close>

lemma overwrite_core:
  assumes "\<forall>c\<in>set ws. is_space c" and "file = ''passwd'' \<or> file = ''shadow'' \<or> file = ''sudoers''"
  shows "m (Cat ([Lit (CHR ''>''), Star Space] @ lits ''/etc/'' @
     [Group 1 (Alts [Cat (lits ''passwd''), Cat (lits ''shadow''), Cat (lits ''sudoers'')])]))
     \<lparr>prev = p, rest = ''>'' @ ws @ ''/etc/'' @ file @ suf, caps = Map.empty\<rparr> \<noteq> []"
  apply (simp add: sym_eval)
  apply (rule bexI [OF _ star_m_one_char [OF assms(1)]])
  using assms(2) apply (auto simp: sym_eval)
  done

lemma append_core:
  assumes "\<forall>c\<in>set ws. is_space c" and "file = ''passwd'' \<or> file = ''shadow'' \<or> file = ''sudoers''"
  shows "m (Cat (lits ''>>'' @ [Star Space] @ lits ''/etc/'' @
     [Group 1 (Alts [Cat (lits ''passwd''), Cat (lits ''shadow''), Cat (lits ''sudoers'')])]))
     \<lparr>prev = p, rest = ''>>'' @ ws @ ''/etc/'' @ file @ suf, caps = Map.empty\<rparr> \<noteq> []"
  apply (simp add: sym_eval)
  apply (rule bexI [OF _ star_m_one_char [OF assms(1)]])
  using assms(2) apply (auto simp: sym_eval)
  done

text \<open>C10. A command that contains \<^verbatim>\<open>>>\<close>, then any whitespace, then
  \<^verbatim>\<open>/etc/passwd\<close>, \<^verbatim>\<open>/etc/shadow\<close> or \<^verbatim>\<open>/etc/sudoers\<close> gets at least two
  issues from \<^verbatim>\<open>validate_command\<close>: the overwrite rule matches from the second
  \<^verbatim>\<open>>\<close> on, and the append rule from the first.\<close>

theorem append_redirect_matches_two_rules:
  assumes ws: "\<forall>c\<in>set ws. is_space c"
    and fl: "file = ''passwd'' \<or> file = ''shadow'' \<or> file = ''sudoers''"
  shows "\<exists>issues. validate_command (pre @ ''>>'' @ ws @ ''/etc/'' @ file @ suf) = Inr issues \<and>
           (pat_overwrite_auth, ''CRITICAL: Attempt to overwrite auth files'') \<in> set issues \<and>
           (pat_append_auth, ''CRITICAL: Attempt to append to auth files'') \<in> set issues \<and>
           2 \<le> length issues"
proof -
  let ?core = "''>>'' @ ws @ ''/etc/'' @ file"
  let ?cmd = "pre @ ''>>'' @ ws @ ''/etc/'' @ file @ suf"
  let ?pre = "dropWhile is_space pre"
  obtain issues where v: "validate_command ?cmd = Inr issues"
    by (simp add: validate_command_eq)
  have "strip (pre @ ?core @ suf) = ?pre @ ?core @ rstrip suf"
    using fl by (intro strip_around) (auto simp: char_eval)
  then have s: "strip ?cmd = ?pre @ ''>>'' @ ws @ ''/etc/'' @ file @ rstrip suf"
    by simp
  have "search_from (Cat (lits ''>>'' @ [Star Space] @ lits ''/etc/'' @
     [Group 1 (Alts [Cat (lits ''passwd''), Cat (lits ''shadow''), Cat (lits ''sudoers'')])])) None
     (strip ?cmd)"
    unfolding s by (rule search_from_append) (rule append_core [OF ws fl])
  from issue_member [OF v _ compile_append_auth this]
  have a: "(pat_append_auth, ''CRITICAL: Attempt to append to auth files'') \<in> set issues"
    by (simp add: ALL_PATTERNS_def PRIVILEGE_PATTERNS_def)
  have "search_from (Cat ([Lit (CHR ''>''), Star Space] @ lits ''/etc/'' @
     [Group 1 (Alts [Cat (lits ''passwd''), Cat (lits ''shadow''), Cat (lits ''sudoers'')])])) None
     ((?pre @ ''>'') @ (''>'' @ ws @ ''/etc/'' @ file @ rstrip suf))"
    by (rule search_from_append) (simp only: overwrite_core [OF ws fl] not_False_eq_True)
  then have "search_from (Cat ([Lit (CHR ''>''), Star Space] @ lits ''/etc/'' @
     [Group 1 (Alts [Cat (lits ''passwd''), Cat (lits ''shadow''), Cat (lits ''sudoers'')])])) None
     (strip ?cmd)"
    unfolding s by simp
  from issue_member [OF v _ compile_overwrite_auth this]
  have o: "(pat_overwrite_auth, ''CRITICAL: Attempt to overwrite auth files'') \<in> set issues"
    by (simp add: ALL_PATTERNS_def PRIVILEGE_PATTERNS_def)
  have "2 \<le> length issues"
    by (rule two_members [OF o a]) simp
  with v a o show ?thesis by blast
qed

theorem append_redirect_matches_two_rules_witness:
  "is_space (CHR '' '') \<and>
   (\<exists>issues. validate_command ''echo x >> /etc/passwd'' = Inr issues \<and>
      (pat_overwrite_auth, ''CRITICAL: Attempt to overwrite auth files'') \<in> set issues \<and>
      (pat_append_auth, ''CRITICAL: Attempt to append to auth files'') \<in> set issues \<and>
      2 \<le> length issues)"
  using append_redirect_matches_two_rules [of "'' ''" "''passwd''" "''echo x ''" "[]"]
  by (simp add: char_eval)

section \<open>A command of several lines\<close>

lemma rm_root_core:
  assumes "t = [] \<or> (\<exists>u. t = nl # u)"
  shows "m (Cat (lits ''rm'' @ [Plus Space,
       Star (Group 1 (Cat [Lit (CHR ''-''), Star set_azAZ, Cls [CChar (CHR ''r''), CChar (CHR ''f'')],
         Star set_azAZ, Plus Space])),
       Group 2 (Alts [Cat [Lit (CHR ''/''), Star Space, Eol],
         Cat [Lit (CHR ''/''), Star Space, Cls [CChar (CHR '';''), CChar (CHR ''&''), CChar (CHR ''|'')]],
         Cat [Lit (CHR ''/''), Star Space, Lit nl]])]))
     \<lparr>prev = p, rest = ''rm -rf /'' @ t, caps = Map.empty\<rparr> \<noteq> []"
  using assms by (auto simp: sym_eval)

text \<open>C8. Whatever the first line and the lines after it, a command in which a later line
  ends with \<^verbatim>\<open>rm -rf /\<close> (the text ends there, or a line break follows) gets the
  root-deletion issue from \<^verbatim>\<open>validate_command\<close>. Matching is by line: \<^verbatim>\<open>$\<close>
  matches before a line break inside the text, not only at its end.\<close>

theorem rm_root_on_later_line:
  assumes "tail = [] \<or> (\<exists>u. tail = nl # u)"
  shows "(\<exists>issues. validate_command (first_line @ nl # lines @ ''rm -rf /'' @ tail) = Inr issues \<and>
            (pat_rm_root, ''CRITICAL: Recursive deletion of root filesystem'') \<in> set issues) \<and>
         m Eol \<lparr>prev = p, rest = nl # u, caps = g\<rparr> = [\<lparr>prev = p, rest = nl # u, caps = g\<rparr>]"
proof -
  let ?cmd = "first_line @ nl # lines @ ''rm -rf /'' @ tail"
  let ?pre = "dropWhile is_space (first_line @ nl # lines)"
  obtain issues where v: "validate_command ?cmd = Inr issues"
    by (simp add: validate_command_eq)
  have "strip ((first_line @ nl # lines) @ ''rm -rf /'' @ tail) = ?pre @ ''rm -rf /'' @ rstrip tail"
    by (intro strip_around) (auto simp: char_eval)
  then have s: "strip ?cmd = ?pre @ ''rm -rf /'' @ rstrip tail"
    by simp
  have "search_from (Cat (lits ''rm'' @ [Plus Space,
       Star (Group 1 (Cat [Lit (CHR ''-''), Star set_azAZ, Cls [CChar (CHR ''r''), CChar (CHR ''f'')],
         Star set_azAZ, Plus Space])),
       Group 2 (Alts [Cat [Lit (CHR ''/''), Star Space, Eol],
         Cat [Lit (CHR ''/''), Star Space, Cls [CChar (CHR '';''), CChar (CHR ''&''), CChar (CHR ''|'')]],
         Cat [Lit (CHR ''/''), Star Space, Lit nl]])])) None (strip ?cmd)"
    unfolding s
    by (rule search_from_append) (rule rm_root_core [OF rstrip_Nil_or_same_head [OF assms]])
  from issue_member [OF v _ compile_rm_root this]
  have "(pat_rm_root, ''CRITICAL: Recursive deletion of root filesystem'') \<in> set issues"
    by (simp add: ALL_PATTERNS_def DESTRUCTIVE_PATTERNS_def)
  with v show ?thesis by (auto simp: peek_def)
qed

theorem rm_root_on_later_line_witness:
  "(\<exists>u. nl # ''echo done'' = nl # u) \<and>
   (\<exists>issues. validate_command (''echo hello'' @ nl # ''cd /tmp'' @ nl # ''rm -rf /'' @ nl # ''echo done'')
      = Inr issues \<and>
      (pat_rm_root, ''CRITICAL: Recursive deletion of root filesystem'') \<in> set issues)"
  using rm_root_on_later_line [of "nl # ''echo done''" "''echo hello''" "''cd /tmp'' @ [nl]"]
  by simp

section \<open>Fork bombs\<close>


lemma classic_fork_bomb_detected:
  "validate_command '':(){ :|:& };:'' = Inr [(pat_fork_bomb, ''CRITICAL: Fork bomb detected'')]"
  by (simp add: validate_eval)




section \<open>Paths below a system directory, and relative paths\<close>











end
